theory Spec2Isabelle
  imports Complex_Main "HOL-Library.Sublist"
begin

section \<open>The icon generator of \<open>process_icon.py\<close>\<close>

text \<open>
  The script opens one image with PIL, and for each entry of a fixed table resizes it to
  a square, saves the result as a PNG file in an output directory and prints a progress
  line. What it computes itself is the table, the pixel size of each entry, the output
  path and the text of the line; everything else is an effect on its environment. The
  environment is modelled as a value that every operation takes and returns: the file
  system, the image objects in memory, and a log of what the run did in order. A file is
  known by its path, a list of names from the root; names that are links to other files
  are not modelled.
\<close>

subsection \<open>Numbers and strings of the host language\<close>

text \<open>
  The keys of the table hold Python ints and one Python float. A float is kept as the
  rational it denotes: \<open>83.5 = 167 / 2\<close> and its double \<open>167\<close> are binary floating
  point values, so the product the script forms is exact.
\<close>

datatype pynum = PyInt int | PyFloat rat

fun num_val :: "pynum \<Rightarrow> rat" where
  "num_val (PyInt i) = of_int i"
| "num_val (PyFloat x) = x"

text \<open>\<open>base_size * scale\<close>: int times int is an int, float times int is a float.\<close>

fun py_mul :: "pynum \<Rightarrow> int \<Rightarrow> pynum" where
  "py_mul (PyInt a) s = PyInt (a * s)"
| "py_mul (PyFloat x) s = PyFloat (x * of_int s)"

text \<open>\<open>int(x)\<close>: the identity on an int, and on a float the integer part.\<close>

fun py_int :: "pynum \<Rightarrow> int" where
  "py_int (PyInt i) = i"
| "py_int (PyFloat x) = (if 0 \<le> x then \<lfloor>x\<rfloor> else \<lceil>x\<rceil>)"

text \<open>The decimal text of an int, as an f-string field prints it.\<close>

fun str_nat :: "nat \<Rightarrow> string" where
  "str_nat n =
     (if n < 10 then [''0123456789'' ! n]
      else str_nat (n div 10) @ [''0123456789'' ! (n mod 10)])"

declare str_nat.simps [simp del]

definition py_str :: "int \<Rightarrow> string" where
  "py_str i = (if i < 0 then CHR ''-'' # str_nat (nat (- i)) else str_nat (nat i))"

subsection \<open>Paths\<close>

text \<open>
  A path is the list of its components from the root, so that a file system can be keyed
  by it. \<open>components\<close> cuts a path string at its separators; \<open>os_path_join\<close> is
  \<open>os.path.join\<close> on a directory that is already such a list: a second argument
  that starts with the separator replaces the first, any other is appended.
\<close>

type_synonym path = "string list"

fun split_sep :: "string \<Rightarrow> string list" where
  "split_sep [] = [[]]"
| "split_sep (c # cs) =
     (if c = CHR ''/'' then [] # split_sep cs
      else (case split_sep cs of [] \<Rightarrow> [[c]] | x # xs \<Rightarrow> (c # x) # xs))"

definition components :: "string \<Rightarrow> path" where
  "components s = filter (\<lambda>c. c \<noteq> []) (split_sep s)"

definition os_path_join :: "path \<Rightarrow> string \<Rightarrow> path" where
  "os_path_join a b =
     (if b \<noteq> [] \<and> hd b = CHR ''/'' then components b else a @ components b)"

subsection \<open>The environment: files, image objects, log\<close>

text \<open>
  The pixel modes of PIL: its standard modes, and of the further ones LA, PA and RGBX.
  The modes of 16-bit storage are left out; whether an image in one of them can be
  resampled depends on the version of the library. \<open>png_writes\<close> holds of the modes
  the PNG writer accepts; for any other it raises \<open>OSError\<close> ("cannot write mode
  ... as PNG").
\<close>

datatype mode =
    Mode_1 | Mode_L | Mode_LA | Mode_P | Mode_PA | Mode_RGB | Mode_RGBA | Mode_RGBX
  | Mode_CMYK | Mode_YCbCr | Mode_LAB | Mode_HSV | Mode_I | Mode_F

fun png_writes :: "mode \<Rightarrow> bool" where
  "png_writes Mode_1 = True"
| "png_writes Mode_L = True"
| "png_writes Mode_LA = True"
| "png_writes Mode_P = True"
| "png_writes Mode_RGB = True"
| "png_writes Mode_RGBA = True"
| "png_writes Mode_I = True"
| "png_writes Mode_PA = False"
| "png_writes Mode_RGBX = False"
| "png_writes Mode_CMYK = False"
| "png_writes Mode_YCbCr = False"
| "png_writes Mode_LAB = False"
| "png_writes Mode_HSV = False"
| "png_writes Mode_F = False"

text \<open>
  A raster is known by its mode, its size and by how it was made: \<open>Bitmap m w h k\<close>
  is a decoded picture of mode \<open>m\<close> (\<open>k\<close> stands for its pixels),
  \<open>Resample r w h\<close> is \<open>r\<close> resampled to \<open>w\<close> by \<open>h\<close>, in the mode of
  \<open>r\<close>. No claim is about pixel values, so they are not modelled further.
\<close>

datatype raster = Bitmap mode nat nat nat | Resample raster nat nat

fun width :: "raster \<Rightarrow> nat" where
  "width (Bitmap m w h k) = w"
| "width (Resample r w h) = w"

fun height :: "raster \<Rightarrow> nat" where
  "height (Bitmap m w h k) = h"
| "height (Resample r w h) = h"

fun mode_of :: "raster \<Rightarrow> mode" where
  "mode_of (Bitmap m w h k) = m"
| "mode_of (Resample r w h) = mode_of r"

definition pixels :: "raster \<Rightarrow> nat" where
  "pixels r = width r * height r"

text \<open>
  \<open>Image.open\<close> raises \<open>DecompressionBombError\<close> for an image of more pixels than
  twice \<open>MAX_IMAGE_PIXELS\<close>, which is 89478485.
\<close>

definition max_image_pixels :: nat where
  "max_image_pixels = 2 * 89478485"

text \<open>
  What a file holds: an image, an image file whose header is intact but whose pixel data
  is cut short or damaged, or bytes that are no image.
\<close>

datatype content = Encoded raster | Broken raster | Garbage "nat list"

datatype node = Dir | File content

datatype error =
    FileNotFoundError | IsADirectoryError | NotADirectoryError | PermissionError
  | FileExistsError | UnidentifiedImageError | DecompressionBombError | ValueError
  | OSError

text \<open>
  How writing a file can fail once the file is open: while the data is encoded and
  written (\<open>Breaks_off\<close>, after the bytes given), or when the buffered data is
  flushed as the file is closed (\<open>Fails_on_close\<close>, leaving the bytes given).
\<close>

datatype fault = Breaks_off "nat list" | Fails_on_close "nat list"

datatype event =
    Opened path nat
  | Resized nat int int nat
  | Saved path nat
  | Printed string

text \<open>
  \<open>nodes\<close> is the file system; \<open>denied\<close> holds the paths that cannot be created
  or opened for writing; \<open>faults\<close> tells for which paths writing the opened file
  fails (a full disk, a device error) and how; \<open>images\<close> is the store of image
  objects, an object's address being its index; \<open>unloadable\<close> holds the addresses
  of the objects whose pixel data cannot be read from their file; \<open>log\<close> records the
  operations of the run in order.
\<close>

record world =
  nodes :: "path \<rightharpoonup> node"
  denied :: "path set"
  faults :: "path \<rightharpoonup> fault"
  images :: "raster list"
  unloadable :: "nat set"
  log :: "event list"

definition exists_path :: "world \<Rightarrow> path \<Rightarrow> bool" where
  "exists_path w p = (p = [] \<or> nodes w p \<noteq> None)"

definition is_dir :: "world \<Rightarrow> path \<Rightarrow> bool" where
  "is_dir w p = (p = [] \<or> nodes w p = Some Dir)"

text \<open>The size of the image stored in a file, when the node is an image file.\<close>

fun image_size :: "node option \<Rightarrow> (nat \<times> nat) option" where
  "image_size (Some (File (Encoded r))) = Some (width r, height r)"
| "image_size _ = None"

text \<open>
  What is at a path after a save that opened the file and then failed while encoding,
  \<open>bs\<close> being the bytes written so far: PIL deletes the file if this save created it;
  a file that was there before stays, emptied by the opening, with those bytes.
\<close>

definition left_behind :: "path \<Rightarrow> nat list \<Rightarrow> world \<Rightarrow> (path \<rightharpoonup> node)" where
  "left_behind p bs w =
     (if nodes w p = None then nodes w else (nodes w)(p \<mapsto> File (Garbage bs)))"

subsection \<open>The library operations the script calls\<close>

text \<open>
  \<open>Image.open\<close> fails on a missing path, a directory, bytes that are no image, and
  an image beyond the pixel limit; otherwise it makes a new image object. It reads the
  header only: the pixel data is read when the object is first used, which in this
  script is the first resize. So a file whose header is intact and whose data is
  damaged is opened like any other, the object being marked as one whose data cannot be
  read.
\<close>

definition Image_open :: "path \<Rightarrow> world \<Rightarrow> (error + nat) \<times> world" where
  "Image_open p w =
     (case nodes w p of
        None \<Rightarrow> (Inl FileNotFoundError, w)
      | Some Dir \<Rightarrow> (Inl IsADirectoryError, w)
      | Some (File (Garbage bs)) \<Rightarrow> (Inl UnidentifiedImageError, w)
      | Some (File (Encoded r)) \<Rightarrow>
          (if max_image_pixels < pixels r then (Inl DecompressionBombError, w)
           else (Inr (length (images w)),
                 w\<lparr>images := images w @ [r],
                   unloadable := unloadable w - {length (images w)},
                   log := log w @ [Opened p (length (images w))]\<rparr>))
      | Some (File (Broken r)) \<Rightarrow>
          (if max_image_pixels < pixels r then (Inl DecompressionBombError, w)
           else (Inr (length (images w)),
                 w\<lparr>images := images w @ [r],
                   unloadable := insert (length (images w)) (unloadable w),
                   log := log w @ [Opened p (length (images w))]\<rparr>)))"

text \<open>
  \<open>img.resize((w, h), LANCZOS)\<close> first loads the pixel data of \<open>img\<close>, which fails
  with \<open>OSError\<close> when the data cannot be read. It then returns a new image object
  and leaves \<open>img\<close> as it is; a size below one is refused. The address \<open>a\<close> is one
  that \<open>Image_open\<close> or \<open>resize\<close> has returned, so it is within the store.
\<close>

definition resize :: "nat \<Rightarrow> int \<times> int \<Rightarrow> world \<Rightarrow> (error + nat) \<times> world" where
  "resize a sz w =
     (if a \<in> unloadable w then (Inl OSError, w)
      else if fst sz < 1 \<or> snd sz < 1 then (Inl ValueError, w)
      else (Inr (length (images w)),
            w\<lparr>images := images w @ [Resample (images w ! a) (nat (fst sz)) (nat (snd sz))],
              log := log w @ [Resized a (fst sz) (snd sz) (length (images w))]\<rparr>))"

text \<open>
  \<open>resized.save(path, 'PNG')\<close> opens the file for writing, which creates it or
  empties it, and writes the encoded image. Opening fails when the directory of the path
  is missing, when the path is a directory, and when the path may not be written;
  nothing is changed then. With the file open, the PNG writer refuses a mode it cannot
  hold before it has written anything, and the writing itself can fail as \<open>faults\<close>
  says; what is then at the path is \<open>left_behind\<close>, or the bytes that reached the
  file when the failure came on closing it.
\<close>

definition save :: "nat \<Rightarrow> path \<Rightarrow> world \<Rightarrow> (error + unit) \<times> world" where
  "save a p w =
     (if p = [] \<or> nodes w p = Some Dir then (Inl IsADirectoryError, w)
      else if \<not> is_dir w (butlast p) then
        (Inl (if exists_path w (butlast p) then NotADirectoryError else FileNotFoundError), w)
      else if p \<in> denied w then (Inl PermissionError, w)
      else if \<not> png_writes (mode_of (images w ! a)) then
        (Inl OSError, w\<lparr>nodes := left_behind p [] w\<rparr>)
      else
        (case faults w p of
           Some (Breaks_off bs) \<Rightarrow> (Inl OSError, w\<lparr>nodes := left_behind p bs w\<rparr>)
         | Some (Fails_on_close bs) \<Rightarrow>
             (Inl OSError, w\<lparr>nodes := (nodes w)(p \<mapsto> File (Garbage bs))\<rparr>)
         | None \<Rightarrow>
             (Inr (),
              w\<lparr>nodes := (nodes w)(p \<mapsto> File (Encoded (images w ! a))),
                log := log w @ [Saved p a]\<rparr>)))"

definition print :: "string \<Rightarrow> world \<Rightarrow> world" where
  "print s w = w\<lparr>log := log w @ [Printed s]\<rparr>"




subsection \<open>The script\<close>

text \<open>
  The dict \<open>icon_sizes\<close> in the order of its literal, which is the order in which
  \<open>items()\<close> yields it.
\<close>

type_synonym entry = "(pynum \<times> int) \<times> string"

definition icon_sizes :: "entry list" where
  "icon_sizes =
     [((PyInt 20, 2), ''AppIcon-20@2x.png''),
      ((PyInt 20, 3), ''AppIcon-20@3x.png''),
      ((PyInt 29, 2), ''AppIcon-29@2x.png''),
      ((PyInt 29, 3), ''AppIcon-29@3x.png''),
      ((PyInt 40, 2), ''AppIcon-40@2x.png''),
      ((PyInt 40, 3), ''AppIcon-40@3x.png''),
      ((PyInt 60, 2), ''AppIcon-60@2x.png''),
      ((PyInt 60, 3), ''AppIcon-60@3x.png''),
      ((PyInt 76, 1), ''AppIcon-76.png''),
      ((PyInt 76, 2), ''AppIcon-76@2x.png''),
      ((PyFloat (167 / 2), 2), ''AppIcon-83.5@2x.png''),
      ((PyInt 1024, 1), ''AppIcon-1024.png'')]"

text \<open>The loop of \<open>create_icon_sizes\<close> over the items still to do.\<close>

fun create_each :: "nat \<Rightarrow> path \<Rightarrow> entry list \<Rightarrow> world \<Rightarrow> (error + unit) \<times> world" where
  "create_each img output_dir [] w = (Inr (), w)"
| "create_each img output_dir (((base_size, scale), filename) # rest) w =
     (let size = py_int (py_mul base_size scale) in
      case resize img (size, size) w of
        (Inl e, w1) \<Rightarrow> (Inl e, w1)
      | (Inr resized, w1) \<Rightarrow>
          (let output_path = os_path_join output_dir filename in
           case save resized output_path w1 of
             (Inl e, w2) \<Rightarrow> (Inl e, w2)
           | (Inr u, w2) \<Rightarrow>
               create_each img output_dir rest
                 (print (''Created '' @ filename @ '' ('' @ py_str size @ ''x'' @ py_str size @ '')'')
                    w2)))"

definition create_icon_sizes :: "path \<Rightarrow> path \<Rightarrow> world \<Rightarrow> (error + unit) \<times> world" where
  "create_icon_sizes input_path output_dir w =
     (case Image_open input_path w of
        (Inl e, w1) \<Rightarrow> (Inl e, w1)
      | (Inr img, w1) \<Rightarrow> create_each img output_dir icon_sizes w1)"


subsection \<open>What a run is observed by\<close>

text \<open>The three things the loop body computes for an entry.\<close>

definition pixel_size :: "entry \<Rightarrow> int" where
  "pixel_size e = py_int (py_mul (fst (fst e)) (snd (fst e)))"

definition target :: "path \<Rightarrow> entry \<Rightarrow> path" where
  "target output_dir e = os_path_join output_dir (snd e)"

definition progress_line :: "entry \<Rightarrow> string" where
  "progress_line e =
     ''Created '' @ snd e @ '' ('' @ py_str (pixel_size e) @ ''x'' @ py_str (pixel_size e) @ '')''"

text \<open>The raster that the entry's file holds when \<open>r\<close> is the source.\<close>

definition resized_raster :: "raster \<Rightarrow> entry \<Rightarrow> raster" where
  "resized_raster r e = Resample r (nat (pixel_size e)) (nat (pixel_size e))"

text \<open>A file name that is one path component: not empty, no separator in it.\<close>

definition simple_name :: "string \<Rightarrow> bool" where
  "simple_name f = (components f = [f] \<and> hd f \<noteq> CHR ''/'')"

text \<open>
  The condition under which \<open>save\<close> can open a path for writing, and the one under
  which it completes for an image of the raster \<open>r\<close>.
\<close>

definition writable :: "world \<Rightarrow> path \<Rightarrow> bool" where
  "writable w p =
     (p \<noteq> [] \<and> nodes w p \<noteq> Some Dir \<and> is_dir w (butlast p) \<and> p \<notin> denied w)"

definition saves :: "world \<Rightarrow> path \<Rightarrow> raster \<Rightarrow> bool" where
  "saves w p r = (writable w p \<and> png_writes (mode_of r) \<and> faults w p = None)"

text \<open>
  Whether \<open>Image.open\<close> accepts what is at a path, and whether in addition the pixel
  data can be read.
\<close>

definition identifies :: "world \<Rightarrow> path \<Rightarrow> bool" where
  "identifies w p =
     (case nodes w p of
        Some (File (Encoded r)) \<Rightarrow> pixels r \<le> max_image_pixels
      | Some (File (Broken r)) \<Rightarrow> pixels r \<le> max_image_pixels
      | _ \<Rightarrow> False)"

definition decodes :: "world \<Rightarrow> path \<Rightarrow> bool" where
  "decodes w p =
     (case nodes w p of
        Some (File (Encoded r)) \<Rightarrow> pixels r \<le> max_image_pixels
      | _ \<Rightarrow> False)"

text \<open>The log read by kind of event.\<close>

definition printed :: "event list \<Rightarrow> string list" where
  "printed l = concat (map (\<lambda>ev. case ev of Printed s \<Rightarrow> [s] | _ \<Rightarrow> []) l)"

definition saved :: "event list \<Rightarrow> path list" where
  "saved l = concat (map (\<lambda>ev. case ev of Saved p a \<Rightarrow> [p] | _ \<Rightarrow> []) l)"

definition opened :: "event list \<Rightarrow> (path \<times> nat) list" where
  "opened l = concat (map (\<lambda>ev. case ev of Opened p a \<Rightarrow> [(p, a)] | _ \<Rightarrow> []) l)"

definition resizes :: "event list \<Rightarrow> (nat \<times> int \<times> int \<times> nat) list" where
  "resizes l =
     concat (map (\<lambda>ev. case ev of Resized a sw sh b \<Rightarrow> [(a, sw, sh, b)] | _ \<Rightarrow> []) l)"

text \<open>The events of one completed loop iteration, its new image object at \<open>a\<close>.\<close>

definition entry_events :: "nat \<Rightarrow> path \<Rightarrow> nat \<times> entry \<Rightarrow> event list" where
  "entry_events img output_dir ae =
     [Resized img (pixel_size (snd ae)) (pixel_size (snd ae)) (fst ae),
      Saved (target output_dir (snd ae)) (fst ae),
      Printed (progress_line (snd ae))]"



text \<open>
  What lets the loop body complete for an entry in a world, given a source that can be
  loaded and saved as PNG: the file name is a single component, the size is accepted by
  \<open>resize\<close>, and the path can be opened and written without a fault.
\<close>

definition entry_ok :: "world \<Rightarrow> path \<Rightarrow> entry \<Rightarrow> bool" where
  "entry_ok w output_dir e =
     (simple_name (snd e) \<and> 1 \<le> pixel_size e \<and> writable w (target output_dir e) \<and>
      faults w (target output_dir e) = None)"

text \<open>
  The world after the loop has completed the entries \<open>es\<close> from \<open>w\<close>, reading the
  image object \<open>img\<close>: a later entry's file replaces an earlier one of the same path.
\<close>

definition after_entries :: "nat \<Rightarrow> path \<Rightarrow> entry list \<Rightarrow> world \<Rightarrow> world" where
  "after_entries img output_dir es w =
     w\<lparr>nodes := nodes w ++
          map_of (rev (map (\<lambda>e. (target output_dir e,
                                  File (Encoded (resized_raster (images w ! img) e)))) es)),
       images := images w @ map (resized_raster (images w ! img)) es,
       log := log w @
          concat (map (entry_events img output_dir) (enumerate (length (images w)) es))\<rparr>"

text \<open>The world after \<open>Image.open\<close> has decoded \<open>r\<close> from the path \<open>p\<close>.\<close>

definition after_open :: "path \<Rightarrow> raster \<Rightarrow> world \<Rightarrow> world" where
  "after_open p r w =
     w\<lparr>images := images w @ [r],
       unloadable := unloadable w - {length (images w)},
       log := log w @ [Opened p (length (images w))]\<rparr>"

text \<open>Every output path of a table can be opened and written without a fault.\<close>

definition all_writable :: "world \<Rightarrow> path \<Rightarrow> entry list \<Rightarrow> bool" where
  "all_writable w output_dir es =
     list_all (\<lambda>e. writable w (target output_dir e) \<and> faults w (target output_dir e) = None) es"

text \<open>
  From \<open>w\<close> to \<open>w'\<close> nothing happened but that directories were made at paths
  leading to \<open>p\<close> where nothing was before.
\<close>

definition only_new_dirs :: "path \<Rightarrow> world \<Rightarrow> world \<Rightarrow> bool" where
  "only_new_dirs p w w' =
     (denied w' = denied w \<and> faults w' = faults w \<and> images w' = images w \<and>
      unloadable w' = unloadable w \<and> log w' = log w \<and>
      (\<forall>q. nodes w' q = nodes w q \<or>
           (nodes w q = None \<and> nodes w' q = Some Dir \<and> prefix q p)))"




subsection \<open>Example worlds\<close>

text \<open>
  A directory \<open>/app\<close> holding a 1024 by 1024 RGB source image and an output
  directory \<open>/app/out\<close> with one file of another kind in it, no path barred or
  faulty, nothing in memory and nothing logged; and a world with no file at all.
\<close>

definition empty_world :: world where
  "empty_world =
     \<lparr>nodes = Map.empty, denied = {}, faults = Map.empty, images = [], unloadable = {},
      log = []\<rparr>"

definition app_world :: world where
  "app_world =
     \<lparr>nodes = [[''app''] \<mapsto> Dir,
               [''app'', ''AppIcon.png''] \<mapsto> File (Encoded (Bitmap Mode_RGB 1024 1024 0)),
               [''app'', ''out''] \<mapsto> Dir,
               [''app'', ''out'', ''Contents.json''] \<mapsto> File (Garbage [123, 125])],
      denied = {}, faults = Map.empty, images = [], unloadable = {}, log = []\<rparr>"

text \<open>The same place after the generator has run there.\<close>

definition app_done :: world where
  "app_done = snd (create_icon_sizes [''app'', ''AppIcon.png''] [''app'', ''out''] app_world)"







definition cut_world :: world where
  "cut_world =
     app_world\<lparr>nodes := (nodes app_world)
       ([''app'', ''AppIcon.png''] \<mapsto> File (Broken (Bitmap Mode_RGB 1024 1024 0)))\<rparr>"

text \<open>The last of these after \<open>Image.open\<close> has been called on the source path.\<close>

definition cut_opened :: world where
  "cut_opened = snd (Image_open [''app'', ''AppIcon.png''] cut_world)"

section \<open>Properties\<close>

subsection \<open>The loop, step by step and as a whole\<close>

lemma simple_join: "simple_name f \<Longrightarrow> os_path_join od f = od @ [f]"
  by (auto simp: simple_name_def os_path_join_def)

lemma simple_target: "simple_name (snd e) \<Longrightarrow> target od e = od @ [snd e]"
  by (simp add: target_def simple_join)

lemma save_saves:
  "saves w p (images w ! a) \<Longrightarrow>
   save a p w = (Inr (), w\<lparr>nodes := (nodes w)(p \<mapsto> File (Encoded (images w ! a))),
                            log := log w @ [Saved p a]\<rparr>)"
  by (simp add: save_def saves_def writable_def)

lemma save_not_writable: "\<not> writable w p \<Longrightarrow> \<exists>err. save a p w = (Inl err, w)"
  by (auto simp: save_def writable_def)



text \<open>
  A save that fails changes nothing but, at most, what is at its own path, where it
  leaves what was there or a file that is no image.
\<close>

lemma left_behind_cases:
  "left_behind p bs w q = nodes w q \<or> (q = p \<and> left_behind p bs w q = Some (File (Garbage bs)))"
  by (simp add: left_behind_def)

lemma save_Inl:
  assumes "save a p w = (Inl err, w1)"
  shows "log w1 = log w" "images w1 = images w" "denied w1 = denied w" "faults w1 = faults w"
    "unloadable w1 = unloadable w" "q \<noteq> p \<Longrightarrow> nodes w1 q = nodes w q"
    "nodes w1 p = nodes w p \<or> (\<exists>bs. nodes w1 p = Some (File (Garbage bs)))"
    "nodes w p \<noteq> Some Dir \<Longrightarrow> nodes w1 p \<noteq> Some Dir"
  using assms left_behind_cases [of p _ w]
  by (auto simp: save_def left_behind_def split: if_splits option.splits fault.splits)

lemma create_each_Cons:
  "create_each img od (e # rest) w =
     (case resize img (pixel_size e, pixel_size e) w of
        (Inl err, w1) \<Rightarrow> (Inl err, w1)
      | (Inr a, w1) \<Rightarrow>
          (case save a (target od e) w1 of
             (Inl err, w2) \<Rightarrow> (Inl err, w2)
           | (Inr u, w2) \<Rightarrow> create_each img od rest (print (progress_line e) w2)))"
proof -
  obtain b s f where e: "e = ((b, s), f)" by (metis prod.collapse)
  show ?thesis
    unfolding e
    by (simp add: pixel_size_def target_def progress_line_def Let_def
        split: prod.splits sum.splits)
qed


lemma map_add_upd_first: "m(k \<mapsto> v) ++ map_of xs = m ++ map_of (xs @ [(k, v)])"
  by (rule ext) (simp add: map_add_def split: option.splits)

lemma entry_events_pair:
  "entry_events img od (a, e) =
     [Resized img (pixel_size e) (pixel_size e) a, Saved (target od e) a,
      Printed (progress_line e)]"
  by (simp add: entry_events_def)


lemma mode_of_resized [simp]: "mode_of (resized_raster r e) = mode_of r"
  by (simp add: resized_raster_def)

lemma create_each_ok:
  assumes "img < length (images w)" and "img \<notin> unloadable w"
    and "png_writes (mode_of (images w ! img))" and "list_all (entry_ok w od) es"
  shows "create_each img od es w = (Inr (), after_entries img od es w)"
  using assms
proof (induction es arbitrary: w)
  case Nil
  then show ?case by (simp add: after_entries_def)
next
  case (Cons e es)
  let ?a = "length (images w)"
  let ?r = "resized_raster (images w ! img) e"
  let ?w1 = "w\<lparr>images := images w @ [?r],
               log := log w @ [Resized img (pixel_size e) (pixel_size e) ?a]\<rparr>"
  let ?w2 = "?w1\<lparr>nodes := (nodes w)(target od e \<mapsto> File (Encoded ?r)),
                 log := log ?w1 @ [Saved (target od e) ?a]\<rparr>"
  let ?w3 = "print (progress_line e) ?w2"
  from Cons.prems have ok: "entry_ok w od e" and oks: "list_all (entry_ok w od) es" by simp_all
  have rs: "resize img (pixel_size e, pixel_size e) w = (Inr ?a, ?w1)"
    using ok Cons.prems(2) by (simp add: resize_def entry_ok_def resized_raster_def)
  have "saves ?w1 (target od e) (images ?w1 ! ?a)"
    using ok Cons.prems(3) by (simp add: entry_ok_def saves_def writable_def is_dir_def)
  then have sv: "save ?a (target od e) ?w1 = (Inr (), ?w2)"
    by (simp add: save_saves)
  have step: "create_each img od (e # es) w = create_each img od es ?w3"
    by (simp add: create_each_Cons rs sv)
  have img3: "img < length (images ?w3)" using Cons.prems by (simp add: print_def)
  have un3: "img \<notin> unloadable ?w3" using Cons.prems by (simp add: print_def)
  have md3: "png_writes (mode_of (images ?w3 ! img))"
    using Cons.prems by (simp add: print_def nth_append)
  have oks3: "list_all (entry_ok ?w3 od) es"
    using oks ok
    by (auto simp: list_all_iff entry_ok_def writable_def is_dir_def print_def simple_target)
  show ?case
    using Cons.prems(1) unfolding step Cons.IH [OF img3 un3 md3 oks3]
    by (simp add: after_entries_def print_def entry_events_pair map_add_upd_first nth_append
        del: map_of_append)
qed



lemma denied_after [simp]: "denied (after_entries img od es w) = denied w"
  by (simp add: after_entries_def)

lemma faults_after [simp]: "faults (after_entries img od es w) = faults w"
  by (simp add: after_entries_def)

lemma unloadable_after [simp]: "unloadable (after_entries img od es w) = unloadable w"
  by (simp add: after_entries_def)



lemma printed_append [simp]: "printed (xs @ ys) = printed xs @ printed ys"
  by (simp add: printed_def)

lemma saved_append [simp]: "saved (xs @ ys) = saved xs @ saved ys"
  by (simp add: saved_def)

lemma opened_append [simp]: "opened (xs @ ys) = opened xs @ opened ys"
  by (simp add: opened_def)

lemma resizes_append [simp]: "resizes (xs @ ys) = resizes xs @ resizes ys"
  by (simp add: resizes_def)



lemma opened_entries:
  "opened (concat (map (entry_events img od) (enumerate n es))) = []"
  by (induction es arbitrary: n) (simp_all add: opened_def entry_events_pair)

lemma resizes_entries:
  "resizes (concat (map (entry_events img od) (enumerate n es))) =
     map (\<lambda>(a, e). (img, pixel_size e, pixel_size e, a)) (enumerate n es)"
  by (induction es arbitrary: n) (simp_all add: resizes_def entry_events_pair)

subsection \<open>The table\<close>

lemma icon_names_simple: "list_all (\<lambda>e. simple_name (snd e)) icon_sizes"
  by (simp add: icon_sizes_def simple_name_def components_def)

lemma icon_pixel_sizes:
  "map pixel_size icon_sizes = [40, 60, 58, 87, 80, 120, 120, 180, 76, 152, 167, 1024]"
  by (simp add: icon_sizes_def pixel_size_def)

lemma icon_sizes_positive: "list_all (\<lambda>e. 1 \<le> pixel_size e) icon_sizes"
  by (simp add: icon_sizes_def pixel_size_def)

lemma icon_names_distinct: "distinct (map snd icon_sizes)"
  by (simp add: icon_sizes_def)

text \<open>
  The keys of the dict literal differ pairwise as Python compares them (by numeric value),
  so none replaces another and the dict has an item for each of the twelve lines.
\<close>

lemma icon_keys_distinct:
  "distinct (map (\<lambda>e. (num_val (fst (fst e)), snd (fst e))) icon_sizes) \<and> length icon_sizes = 12"
  by (simp add: icon_sizes_def)






subsection \<open>A whole run\<close>

lemma Image_open_Encoded:
  "nodes w p = Some (File (Encoded r)) \<Longrightarrow> pixels r \<le> max_image_pixels \<Longrightarrow>
   Image_open p w = (Inr (length (images w)), after_open p r w)"
  by (simp add: Image_open_def after_open_def)


lemma Image_open_not_identified: "\<not> identifies w p \<Longrightarrow> \<exists>err. Image_open p w = (Inl err, w)"
  by (auto simp: Image_open_def identifies_def split: option.splits node.splits content.splits)

lemma Image_open_Inr:
  assumes "Image_open p w = (Inr a, w1)"
  shows "a = length (images w)" "nodes w1 = nodes w" "denied w1 = denied w"
    "faults w1 = faults w" "log w1 = log w @ [Opened p a]" "length (images w1) = Suc a"
    "identifies w p"
    "(\<exists>r. nodes w p = Some (File (Encoded r)) \<and> pixels r \<le> max_image_pixels \<and>
          w1 = after_open p r w) \<or>
     (\<not> decodes w p \<and> a \<in> unloadable w1)"
  using assms
  by (auto simp: Image_open_def after_open_def identifies_def decodes_def
      split: option.splits node.splits content.splits if_splits)

lemma after_open_simps [simp]:
  "nodes (after_open p r w) = nodes w"
  "denied (after_open p r w) = denied w"
  "faults (after_open p r w) = faults w"
  "images (after_open p r w) = images w @ [r]"
  "unloadable (after_open p r w) = unloadable w - {length (images w)}"
  "log (after_open p r w) = log w @ [Opened p (length (images w))]"
  by (simp_all add: after_open_def)

lemma writable_after_open [simp]: "writable (after_open p r w) q = writable w q"
  by (simp add: writable_def is_dir_def)

lemma entry_ok_icon:
  "all_writable w od icon_sizes \<Longrightarrow> list_all (entry_ok (after_open p r w) od) icon_sizes"
  using icon_names_simple icon_sizes_positive
  by (simp add: all_writable_def list_all_iff entry_ok_def)

lemma create_icon_sizes_ok:
  assumes "nodes w input_path = Some (File (Encoded r))" and "pixels r \<le> max_image_pixels"
    and "png_writes (mode_of r)" and "all_writable w od icon_sizes"
  shows "create_icon_sizes input_path od w =
           (Inr (), after_entries (length (images w)) od icon_sizes (after_open input_path r w))"
proof -
  let ?w0 = "after_open input_path r w"
  have a: "length (images w) < length (images ?w0)" by simp
  have b: "length (images w) \<notin> unloadable ?w0" by simp
  have c: "png_writes (mode_of (images ?w0 ! length (images w)))" using assms(3) by simp
  from create_each_ok [OF a b c entry_ok_icon [OF assms(4)]]
  show ?thesis
    by (simp add: create_icon_sizes_def Image_open_Encoded [OF assms(1,2)])
qed


lemma resize_unloadable: "a \<in> unloadable w \<Longrightarrow> resize a sz w = (Inl OSError, w)"
  by (simp add: resize_def)


lemma save_frame:
  "save a p w = (res, w1) \<Longrightarrow>
     denied w1 = denied w \<and> faults w1 = faults w \<and> unloadable w1 = unloadable w \<and>
     (\<forall>q. q \<noteq> p \<longrightarrow> nodes w1 q = nodes w q)"
  by (auto simp: save_def left_behind_def split: if_splits option.splits fault.splits)

lemma print_frame [simp]: "nodes (print s w) = nodes w" "denied (print s w) = denied w"
  "faults (print s w) = faults w" "unloadable (print s w) = unloadable w"
  "images (print s w) = images w" "log (print s w) = log w @ [Printed s]"
  by (simp_all add: print_def)






subsection \<open>An input that cannot be decoded\<close>

lemma saved_simps [simp]:
  "saved [] = []" "saved (Opened p a # l) = saved l" "saved (Resized a sw sh b # l) = saved l"
  "saved (Saved p a # l) = p # saved l" "saved (Printed s # l) = saved l"
  by (simp_all add: saved_def)

lemma printed_simps [simp]:
  "printed [] = []" "printed (Opened p a # l) = printed l"
  "printed (Resized a sw sh b # l) = printed l"
  "printed (Saved p a # l) = printed l" "printed (Printed s # l) = s # printed l"
  by (simp_all add: printed_def)

lemma opened_simps [simp]:
  "opened [] = []" "opened (Opened p a # l) = (p, a) # opened l"
  "opened (Resized a sw sh b # l) = opened l"
  "opened (Saved p a # l) = opened l" "opened (Printed s # l) = opened l"
  by (simp_all add: opened_def)

lemma resizes_simps [simp]:
  "resizes [] = []" "resizes (Opened p a # l) = resizes l"
  "resizes (Resized a sw sh b # l) = (a, sw, sh, b) # resizes l"
  "resizes (Saved p a # l) = resizes l" "resizes (Printed s # l) = resizes l"
  by (simp_all add: resizes_def)

lemma Image_open_identified:
  "identifies w p \<Longrightarrow> \<exists>w1. Image_open p w = (Inr (length (images w)), w1)"
  by (auto simp: Image_open_def identifies_def split: option.splits node.splits content.splits)

lemma icon_sizes_Cons: "\<exists>e rest. icon_sizes = e # rest"
  by (simp add: icon_sizes_def)

lemma create_each_unloadable:
  assumes "a \<in> unloadable w"
  shows "create_each a od icon_sizes w = (Inl OSError, w)"
proof -
  from icon_sizes_Cons obtain e rest where tbl: "icon_sizes = e # rest" by blast
  show ?thesis
    unfolding tbl by (simp add: create_each_Cons resize_unloadable [OF assms])
qed

text \<open>
  Claim C4, as stated, fails. The source file of \<open>cut_world\<close> cannot be decoded: its
  pixel data is cut short. Yet \<open>Image.open\<close> accepts it, the loop is entered, and it
  is the loop that ends with the error, at its first resize: the run does not fail
  before the loop.
\<close>

theorem cut_input_fails_inside_loop:
  "\<not> decodes cut_world [''app'', ''AppIcon.png''] \<and>
   Image_open [''app'', ''AppIcon.png''] cut_world = (Inr 0, cut_opened) \<and>
   create_each 0 [''app'', ''out''] icon_sizes cut_opened = (Inl OSError, cut_opened) \<and>
   create_icon_sizes [''app'', ''AppIcon.png''] [''app'', ''out''] cut_world
     = (Inl OSError, cut_opened) \<and>
   log cut_opened = [Opened [''app'', ''AppIcon.png''] 0]"
proof -
  let ?p = "[''app'', ''AppIcon.png'']"
  have nd: "\<not> decodes cut_world ?p"
    by (simp add: decodes_def cut_world_def)
  have "identifies cut_world ?p"
    by (simp add: identifies_def cut_world_def pixels_def max_image_pixels_def)
  from Image_open_identified [OF this] have io: "Image_open ?p cut_world = (Inr 0, cut_opened)"
    by (auto simp: cut_opened_def cut_world_def app_world_def)
  from Image_open_Inr(8) [OF io] nd have un: "0 \<in> unloadable cut_opened"
    by (auto simp: decodes_def)
  have lp: "create_each 0 [''app'', ''out''] icon_sizes cut_opened = (Inl OSError, cut_opened)"
    by (rule create_each_unloadable [OF un])
  have run: "create_icon_sizes ?p [''app'', ''out''] cut_world = (Inl OSError, cut_opened)"
    by (simp add: create_icon_sizes_def io lp)
  from Image_open_Inr(5) [OF io] have lg: "log cut_opened = [Opened ?p 0]"
    by (simp add: cut_world_def app_world_def)
  from nd io lp run lg show ?thesis by blast
qed

text \<open>
  Claim C4, amended. When the input path is missing or holds nothing that can be
  decoded, the whole run is aborted with an error: no file is created or changed, no
  entry is resized or saved, and no progress line is printed. When \<open>Image.open\<close>
  refuses the path (it is missing, a directory, no image, or an image beyond the pixel
  limit) the failure comes before the loop and the world is left as it was; when the
  header is intact and the pixel data is not, \<open>Image.open\<close> accepts the file, and the
  failure comes at the first resize of the loop, the opening being all that happened.
\<close>

theorem undecodable_input_aborts_run:
  assumes "\<not> decodes w input_path"
  shows "\<exists>err w'. create_icon_sizes input_path output_dir w = (Inl err, w') \<and>
           nodes w' = nodes w \<and>
           saved (log w') = saved (log w) \<and> printed (log w') = printed (log w) \<and>
           resizes (log w') = resizes (log w) \<and>
           (if identifies w input_path
            then log w' = log w @ [Opened input_path (length (images w))]
            else w' = w)"
proof (cases "identifies w input_path")
  case False
  from Image_open_not_identified [OF False] obtain err
    where "Image_open input_path w = (Inl err, w)" ..
  then have "create_icon_sizes input_path output_dir w = (Inl err, w)"
    by (simp add: create_icon_sizes_def)
  with False show ?thesis by auto
next
  case True
  from Image_open_identified [OF True] obtain w1
    where io: "Image_open input_path w = (Inr (length (images w)), w1)" ..
  from Image_open_Inr(8) [OF io] assms have "length (images w) \<in> unloadable w1"
    by (auto simp: decodes_def)
  then have "create_each (length (images w)) output_dir icon_sizes w1 = (Inl OSError, w1)"
    by (rule create_each_unloadable)
  then have run: "create_icon_sizes input_path output_dir w = (Inl OSError, w1)"
    by (simp add: create_icon_sizes_def io)
  have n: "nodes w1 = nodes w" by (rule Image_open_Inr(2) [OF io])
  have l: "log w1 = log w @ [Opened input_path (length (images w))]"
    by (rule Image_open_Inr(5) [OF io])
  from run n l True show ?thesis by auto
qed

theorem undecodable_input_aborts_run_witness:
  "\<not> decodes cut_world [''app'', ''AppIcon.png''] \<and>
   identifies cut_world [''app'', ''AppIcon.png''] \<and>
   \<not> decodes empty_world [''app'', ''AppIcon.png''] \<and>
   (\<exists>err w'. create_icon_sizes [''app'', ''AppIcon.png''] [''app'', ''out''] cut_world = (Inl err, w') \<and>
      nodes w' = nodes cut_world \<and> saved (log w') = [] \<and> printed (log w') = [] \<and>
      log w' = [Opened [''app'', ''AppIcon.png''] 0]) \<and>
   (\<exists>err. create_icon_sizes [''app'', ''AppIcon.png''] [''app'', ''out''] empty_world
            = (Inl err, empty_world))"
proof -
  let ?p = "[''app'', ''AppIcon.png'']"
  have h: "\<not> decodes cut_world ?p" by (simp add: decodes_def cut_world_def)
  have i: "identifies cut_world ?p"
    by (simp add: identifies_def cut_world_def pixels_def max_image_pixels_def)
  have h0: "\<not> decodes empty_world ?p" by (simp add: decodes_def empty_world_def)
  have i0: "\<not> identifies empty_world ?p" by (simp add: identifies_def empty_world_def)
  have e: "log cut_world = []" "images cut_world = []"
    by (simp_all add: cut_world_def app_world_def)
  from undecodable_input_aborts_run [OF h, of "[''app'', ''out'']"] i e
  have a: "\<exists>err w'. create_icon_sizes ?p [''app'', ''out''] cut_world = (Inl err, w') \<and>
      nodes w' = nodes cut_world \<and> saved (log w') = [] \<and> printed (log w') = [] \<and>
      log w' = [Opened ?p 0]"
    by auto
  from undecodable_input_aborts_run [OF h0, of "[''app'', ''out'']"] i0
  have b: "\<exists>err. create_icon_sizes ?p [''app'', ''out''] empty_world = (Inl err, empty_world)"
    by auto
  from h i h0 a b show ?thesis by blast
qed

subsection \<open>The files of a completed run\<close>




lemma image_size_resized:
  "1 \<le> pixel_size e \<Longrightarrow>
   image_size (Some (File (Encoded (resized_raster r e)))) = Some (nat (pixel_size e), nat (pixel_size e))"
  by (simp add: resized_raster_def)



lemma app_world_input:
  "nodes app_world [''app'', ''AppIcon.png''] = Some (File (Encoded (Bitmap Mode_RGB 1024 1024 0)))"
  by (simp add: app_world_def)

lemma app_world_pixels: "pixels (Bitmap Mode_RGB 1024 1024 0) \<le> max_image_pixels"
  by (simp add: pixels_def max_image_pixels_def)

lemma app_world_writable: "all_writable app_world [''app'', ''out''] icon_sizes"
  by (simp add: all_writable_def icon_sizes_def target_def os_path_join_def components_def
      writable_def is_dir_def app_world_def)

lemma app_run:
  "create_icon_sizes [''app'', ''AppIcon.png''] [''app'', ''out''] app_world = (Inr (), app_done)"
  unfolding app_done_def
  by (simp add: create_icon_sizes_ok [OF app_world_input app_world_pixels _ app_world_writable])










subsection \<open>The pixel size of an entry\<close>



subsection \<open>Inputs that are not square\<close>





subsection \<open>Progress lines\<close>






subsection \<open>A write that fails\<close>


lemma after_entries_Nil [simp]: "after_entries img od [] w = w"
  by (simp add: after_entries_def)




subsection \<open>Running twice\<close>







subsection \<open>The source image in memory\<close>

lemma create_each_heap:
  "create_each img od es w = (res, w') \<Longrightarrow> img < length (images w) \<Longrightarrow>
   \<exists>k\<le>length es.
      resizes (log w') = resizes (log w) @
        map (\<lambda>(a, e). (img, pixel_size e, pixel_size e, a))
          (enumerate (length (images w)) (take k es)) \<and>
      images w' = images w @ map (resized_raster (images w ! img)) (take k es) \<and>
      opened (log w') = opened (log w) \<and>
      (res = Inr () \<longrightarrow> k = length es)"
proof (induction es arbitrary: w)
  case Nil
  then show ?case by auto
next
  case (Cons e es)
  let ?n = "length (images w)"
  let ?w1 = "w\<lparr>images := images w @ [resized_raster (images w ! img) e],
               log := log w @ [Resized img (pixel_size e) (pixel_size e) ?n]\<rparr>"
  show ?case
  proof (cases "img \<notin> unloadable w \<and> 1 \<le> pixel_size e")
    case False
    then have "\<exists>err. resize img (pixel_size e, pixel_size e) w = (Inl err, w)"
      by (auto simp: resize_def)
    then obtain err where "resize img (pixel_size e, pixel_size e) w = (Inl err, w)" ..
    with Cons.prems have "res = Inl err" "w' = w" by (simp_all add: create_each_Cons)
    then show ?thesis by (intro exI [of _ 0]) simp
  next
    case True
    then have rs: "resize img (pixel_size e, pixel_size e) w = (Inr ?n, ?w1)"
      by (simp add: resize_def resized_raster_def)
    obtain r2 w2 where sv: "save ?n (target od e) ?w1 = (r2, w2)"
      by (cases "save ?n (target od e) ?w1")
    show ?thesis
    proof (cases r2)
      case (Inl err)
      with sv have "log w2 = log ?w1" "images w2 = images ?w1" using save_Inl(1,2) by blast+
      moreover from Cons.prems rs sv Inl have "res = Inl err" "w' = w2"
        by (simp_all add: create_each_Cons)
      ultimately show ?thesis by (intro exI [of _ 1]) simp
    next
      case (Inr u)
      let ?w3 = "print (progress_line e) w2"
      from sv Inr have w2: "images w2 = images ?w1" "resizes (log w2) = resizes (log ?w1)"
        "opened (log w2) = opened (log ?w1)"
        by (auto simp: save_def split: if_splits option.splits fault.splits)
      from Cons.prems rs sv Inr have run: "create_each img od es ?w3 = (res, w')"
        by (simp add: create_each_Cons)
      have img3: "img < length (images ?w3)" using Cons.prems(2) w2 by simp
      have nth3: "images ?w3 ! img = images w ! img"
        using Cons.prems(2) w2 by (simp add: nth_append)
      have len3: "length (images ?w3) = Suc ?n" using w2 by simp
      from Cons.IH [OF run img3] obtain k where k: "k \<le> length es"
        and rz: "resizes (log w') = resizes (log ?w3) @
            map (\<lambda>(a, e). (img, pixel_size e, pixel_size e, a)) (enumerate (Suc ?n) (take k es))"
        and im: "images w' = images ?w3 @ map (resized_raster (images w ! img)) (take k es)"
        and op: "opened (log w') = opened (log ?w3)"
        and rr: "res = Inr () \<longrightarrow> k = length es"
        unfolding nth3 len3 by blast
      show ?thesis
        using k rz im op rr w2 by (intro exI [of _ "Suc k"]) simp
    qed
  qed
qed

text \<open>
  Claim C8. In a run whose input decodes to the raster \<open>r\<close> (an image within the
  pixel limit of \<open>Image.open\<close>, its data intact), the input path is opened
  once and nothing else is opened; the image object made by that opening still holds
  \<open>r\<close> when the run ends, as every object that was in memory before holds what it
  held. Every resize of the run reads that one object, and each makes a new object, at
  an address above it, holding \<open>r\<close> resampled to the entry's size. At most twelve
  resizes happen, and exactly twelve when the run completes.
\<close>

theorem source_opened_once_and_kept:
  assumes "create_icon_sizes input_path output_dir w = (res, w')"
    and "nodes w input_path = Some (File (Encoded r))"
    and "pixels r \<le> max_image_pixels"
  shows "opened (log w') = opened (log w) @ [(input_path, length (images w))] \<and>
         take (Suc (length (images w))) (images w') = images w @ [r] \<and>
         (\<exists>k\<le>length icon_sizes.
            resizes (log w') = resizes (log w) @
              map (\<lambda>(a, e). (length (images w), pixel_size e, pixel_size e, a))
                (enumerate (Suc (length (images w))) (take k icon_sizes)) \<and>
            images w' = images w @ r # map (resized_raster r) (take k icon_sizes) \<and>
            (res = Inr () \<longrightarrow> k = length icon_sizes)) \<and>
         length icon_sizes = 12"
proof -
  let ?n = "length (images w)"
  let ?w0 = "after_open input_path r w"
  from assms have run: "create_each ?n output_dir icon_sizes ?w0 = (res, w')"
    by (simp add: create_icon_sizes_def Image_open_Encoded)
  have "?n < length (images ?w0)" by simp
  from create_each_heap [OF run this] obtain k where k: "k \<le> length icon_sizes"
    and rz: "resizes (log w') = resizes (log w) @
              map (\<lambda>(a, e). (?n, pixel_size e, pixel_size e, a))
                (enumerate (Suc ?n) (take k icon_sizes))"
    and im: "images w' = images w @ r # map (resized_raster r) (take k icon_sizes)"
    and op: "opened (log w') = opened (log w) @ [(input_path, ?n)]"
    and rr: "res = Inr () \<longrightarrow> k = length icon_sizes"
    by auto
  from im have tk: "take (Suc ?n) (images w') = images w @ [r]" by simp
  have "length icon_sizes = 12" by (simp add: icon_sizes_def)
  with k rz im op rr tk show ?thesis by blast
qed

theorem source_opened_once_and_kept_witness:
  "create_icon_sizes [''app'', ''AppIcon.png''] [''app'', ''out''] app_world = (Inr (), app_done) \<and>
   nodes app_world [''app'', ''AppIcon.png''] = Some (File (Encoded (Bitmap Mode_RGB 1024 1024 0))) \<and>
   opened (log app_done) = [([''app'', ''AppIcon.png''], 0)] \<and>
   images app_done ! 0 = Bitmap Mode_RGB 1024 1024 0 \<and>
   length (images app_done) = 13 \<and>
   map fst (resizes (log app_done)) = replicate 12 0"
proof -
  have e: "log app_world = []" "images app_world = []" by (simp_all add: app_world_def)
  from source_opened_once_and_kept [OF app_run app_world_input app_world_pixels]
  obtain k where op: "opened (log app_done) = opened (log app_world) @ [([''app'', ''AppIcon.png''], length (images app_world))]"
    and rz: "resizes (log app_done) = resizes (log app_world) @
              map (\<lambda>(a, e). (length (images app_world), pixel_size e, pixel_size e, a))
                (enumerate (Suc (length (images app_world))) (take k icon_sizes))"
    and im: "images app_done = images app_world @ Bitmap Mode_RGB 1024 1024 0 #
               map (resized_raster (Bitmap Mode_RGB 1024 1024 0)) (take k icon_sizes)"
    and kk: "Inr () = (Inr () :: error + unit) \<longrightarrow> k = length icon_sizes"
    by blast
  from kk have k: "take k icon_sizes = icon_sizes" by simp
  from op have a: "opened (log app_done) = [([''app'', ''AppIcon.png''], 0)]" by (simp add: e)
  from im have b: "images app_done ! 0 = Bitmap Mode_RGB 1024 1024 0" by (simp add: e)
  from im [unfolded k] have c: "length (images app_done) = 13" by (simp add: e icon_sizes_def)
  from rz [unfolded k] have d: "map fst (resizes (log app_done)) = replicate 12 0"
    by (simp add: e icon_sizes_def numeral_eq_Suc)
  from app_run app_world_input a b c d show ?thesis by blast
qed

subsection \<open>Who makes the output directory\<close>

lemma only_new_dirs_refl: "only_new_dirs p w w"
  by (simp add: only_new_dirs_def)

















end
